theory Spec2Isabelle
  imports Complex_Main
begin

section \<open>PocketSummarize: the MiniLM to Core ML conversion script\<close>

text \<open>
  The repository is one script, \<^verbatim>\<open>Scripts/convert_minilm_to_coreml.py\<close>. It has two parts:
  the tensor arithmetic of \<^verbatim>\<open>PoolingWrapper.forward\<close> (mean pooling and L2 normalisation on
  top of a transformer) and the conversion pipeline \<^verbatim>\<open>convert\<close> with its entry point.

  Tensors are nested lists: a tensor of shape (batch, seq, hidden) is a
  \<open>real list list list\<close>, one of shape (batch, seq) a list of rows. Floating-point numbers
  are idealised as reals, so every statement about values is a statement of exact
  arithmetic. The transformer itself is a parameter: a function from the two integer input
  tensors to its \<^verbatim>\<open>last_hidden_state\<close>. The tensor operations are those of torch on tensors
  whose batch and sequence extents agree; broadcasting is modelled for the trailing axis of
  extent one, which is the only broadcasting \<^verbatim>\<open>forward\<close> relies on.
\<close>

subsection \<open>Tensor operations\<close>

type_synonym base_model = "int list list \<Rightarrow> int list list \<Rightarrow> real list list list"

datatype 'm wrapper = PoolingWrapper (base: 'm)

text \<open>\<^verbatim>\<open>attention_mask.unsqueeze(-1).to(dtype=last_hidden.dtype)\<close>: shape (batch, seq, 1).\<close>

definition unsqueeze_to_float :: "int list list \<Rightarrow> real list list list" where
  "unsqueeze_to_float attention_mask = map (map (\<lambda>m. [real_of_int m])) attention_mask"

text \<open>
  The extent of the last axis, read off the first vector. A nested list with no vector in
  it carries no such extent; it is taken as 0 there.
\<close>

definition last_dim :: "real list list list \<Rightarrow> nat" where
  "last_dim t = (case concat t of [] \<Rightarrow> 0 | v # _ \<Rightarrow> length v)"

text \<open>\<^verbatim>\<open>a * b\<close> for \<open>a\<close> of shape (batch, seq, hidden) and \<open>b\<close> of shape (batch, seq, 1).\<close>

definition mul_bcast :: "real list list list \<Rightarrow> real list list list \<Rightarrow> real list list list" where
  "mul_bcast a b = map2 (map2 (\<lambda>v m. map (\<lambda>x. x * hd m) v)) a b"

text \<open>
  \<^verbatim>\<open>t.sum(dim=1)\<close>: the vectors along the sequence axis are added up. The extent \<open>w\<close> of the
  last axis is an argument, as torch takes it from the shape of the tensor: the sum over an
  empty sequence axis is the zero vector of that extent.
\<close>

definition sum_dim1 :: "nat \<Rightarrow> real list list list \<Rightarrow> real list list" where
  "sum_dim1 w t = map (\<lambda>rows. foldr (map2 (+)) rows (replicate w 0)) t"

text \<open>\<^verbatim>\<open>t.clamp(min=c)\<close>.\<close>

definition clamp_min :: "real list list \<Rightarrow> real \<Rightarrow> real list list" where
  "clamp_min t c = map (map (max c)) t"

text \<open>\<^verbatim>\<open>a / b\<close> for \<open>a\<close> of shape (batch, hidden) and \<open>b\<close> of shape (batch, 1).\<close>

definition div_bcast :: "real list list \<Rightarrow> real list list \<Rightarrow> real list list" where
  "div_bcast a b = map2 (\<lambda>v d. map (\<lambda>x. x / hd d) v) a b"

definition l2_norm :: "real list \<Rightarrow> real" where
  "l2_norm v = sqrt (sum_list (map (\<lambda>x. \<bar>x\<bar> ^ 2) v))"

text \<open>
  \<^verbatim>\<open>torch.nn.functional.normalize(t, p=2, dim=1)\<close>, a function of torch: every row is divided
  by the larger of its Euclidean norm and \<open>eps\<close>, whose default is \<open>1e-12\<close>.
\<close>

definition normalize_eps :: real where
  "normalize_eps = 1 / 10 ^ 12"

definition normalize_dim1 :: "real list list \<Rightarrow> real list list" where
  "normalize_dim1 t = map (\<lambda>v. map (\<lambda>x. x / max (l2_norm v) normalize_eps) v) t"

subsection \<open>PoolingWrapper.forward\<close>

definition forward :: "base_model wrapper \<Rightarrow> int list list \<Rightarrow> int list list \<Rightarrow> real list list" where
  "forward self input_ids attention_mask =
     (let last_hidden = base self input_ids attention_mask;
          mask = unsqueeze_to_float attention_mask;
          summed = sum_dim1 (last_dim last_hidden) (mul_bcast last_hidden mask);
          denom = clamp_min (sum_dim1 1 mask) (1 / 10 ^ 9);
          pooled = div_bcast summed denom;
          normalized = normalize_dim1 pooled
      in normalized)"

text \<open>The values of the local variables \<^verbatim>\<open>denom\<close> and \<^verbatim>\<open>pooled\<close> of \<^verbatim>\<open>forward\<close>.\<close>

definition forward_denom :: "int list list \<Rightarrow> real list list" where
  "forward_denom attention_mask =
     clamp_min (sum_dim1 1 (unsqueeze_to_float attention_mask)) (1 / 10 ^ 9)"

definition forward_pooled :: "base_model wrapper \<Rightarrow> int list list \<Rightarrow> int list list \<Rightarrow> real list list" where
  "forward_pooled self input_ids attention_mask =
     (let last_hidden = base self input_ids attention_mask;
          mask = unsqueeze_to_float attention_mask;
          summed = sum_dim1 (last_dim last_hidden) (mul_bcast last_hidden mask)
      in div_bcast summed (forward_denom attention_mask))"

subsection \<open>Reference definitions of pooling\<close>

text \<open>
  Two reference notions, written from the words of the specification and not from the
  code. The weighted mean multiplies each hidden vector by its mask value, adds the
  products up and divides by the sum of the mask values. Mean pooling adds up the hidden
  vectors at the unmasked positions (mask value not zero) and divides by their number.
\<close>

definition unmasked :: "real list list \<Rightarrow> int list \<Rightarrow> real list list" where
  "unmasked hs ms = map fst (filter (\<lambda>(h, m). m \<noteq> 0) (zip hs ms))"

definition weighted_mean_row :: "nat \<Rightarrow> real list list \<Rightarrow> int list \<Rightarrow> real list" where
  "weighted_mean_row w hs ms =
     map (\<lambda>j. sum_list (map (\<lambda>(h, m). h ! j * real_of_int m) (zip hs ms)) / real_of_int (sum_list ms))
       [0..<w]"

definition weighted_mean :: "real list list list \<Rightarrow> int list list \<Rightarrow> real list list" where
  "weighted_mean last_hidden attention_mask =
     map2 (weighted_mean_row (last_dim last_hidden)) last_hidden attention_mask"

definition mean_pool_ref_row :: "nat \<Rightarrow> real list list \<Rightarrow> int list \<Rightarrow> real list" where
  "mean_pool_ref_row w hs ms =
     (let kept = unmasked hs ms
      in map (\<lambda>j. sum_list (map (\<lambda>h. h ! j) kept) / real (length kept)) [0..<w])"

definition mean_pool_ref :: "real list list list \<Rightarrow> int list list \<Rightarrow> real list list" where
  "mean_pool_ref last_hidden attention_mask =
     map2 (mean_pool_ref_row (last_dim last_hidden)) last_hidden attention_mask"

text \<open>
  The hidden states have the shape the mask asks for: as many examples, as many positions
  in each, and one width for all vectors.
\<close>

definition shapes_agree :: "real list list list \<Rightarrow> int list list \<Rightarrow> bool" where
  "shapes_agree last_hidden attention_mask \<longleftrightarrow>
     length last_hidden = length attention_mask \<and>
     (\<forall>(rows, ms) \<in> set (zip last_hidden attention_mask).
        length rows = length ms \<and> (\<forall>v \<in> set rows. length v = last_dim last_hidden))"

text \<open>A mask as a tokenizer builds it: entries 0 and 1, at least one 1 in every example.\<close>

definition binary_mask :: "int list list \<Rightarrow> bool" where
  "binary_mask attention_mask \<longleftrightarrow> (\<forall>ms \<in> set attention_mask. set ms \<subseteq> {0, 1} \<and> 1 \<in> set ms)"

text \<open>A transformer stub for concrete runs: it returns the given hidden states.\<close>

definition fixed_hidden :: "real list list list \<Rightarrow> base_model" where
  "fixed_hidden h input_ids attention_mask = h"

text \<open>
  One example of \<open>forward_pooled\<close>, with the broadcasts written out: the pooled vector
  of the hidden vectors \<open>rows\<close> under the mask values \<open>ms\<close>.
\<close>

definition pooled_row :: "nat \<Rightarrow> real list list \<Rightarrow> int list \<Rightarrow> real list" where
  "pooled_row w rows ms =
     map (\<lambda>x. x / max (1 / 10 ^ 9) (real_of_int (sum_list ms)))
       (foldr (map2 (+)) (map2 (\<lambda>v m. map (\<lambda>x. x * real_of_int m) v) rows ms) (replicate w 0))"

section \<open>The conversion pipeline: the model\<close>

text \<open>
  \<^verbatim>\<open>convert\<close> is a sequence of calls into transformers, torch, coremltools and
  \<^verbatim>\<open>os.path\<close>. None of these is code of the repository, so the libraries are a parameter:
  a record of operations. Each operation reads and changes the world outside the script
  (file system, download cache, network), of an arbitrary type \<open>'w\<close>, and either returns
  a value or raises.

  Exceptions are values. Python's \<^verbatim>\<open>except Exception\<close> catches the instances of
  \<^verbatim>\<open>Exception\<close> only, so the model keeps them apart from the exceptions that derive from
  \<^verbatim>\<open>BaseException\<close> alone (\<^verbatim>\<open>KeyboardInterrupt\<close>, \<^verbatim>\<open>GeneratorExit\<close>) and from
  \<^verbatim>\<open>SystemExit\<close>, which \<^verbatim>\<open>sys.exit\<close> raises with the exit status.

  What the script does between the library calls is taken as it reads: \<^verbatim>\<open>print\<close> adds a
  line and does not fail, an attribute assignment sets the attribute, the construction of
  the wrapper, the reading of the two tensors out of the tokenizer's result, their
  conversion to int32 and the reading of their shapes compute a value, and
  \<^verbatim>\<open>torch.no_grad()\<close> changes nothing the script observes.
\<close>

subsection \<open>Exceptions, library objects and events\<close>

datatype exn = Exception string | BaseOnly string | SystemExit int

text \<open>
  \<^verbatim>\<open>str(e)\<close>, as \<^verbatim>\<open>print\<close> shows an exception: its message. The script prints caught
  exceptions only, which are instances of \<^verbatim>\<open>Exception\<close>.
\<close>

fun str :: "exn \<Rightarrow> string" where
  "str (Exception msg) = msg"
| "str (BaseOnly msg) = msg"
| "str (SystemExit code) = []"

datatype dtype = Int32 | Int64 | Float32

datatype compute_unit = ComputeUnit_ALL | ComputeUnit_CPU_ONLY | ComputeUnit_CPU_AND_GPU | ComputeUnit_CPU_AND_NE

text \<open>\<^verbatim>\<open>ct.TensorType(name=..., shape=..., dtype=...)\<close>.\<close>

record tensor_type =
  name :: string
  shape :: "nat list"
  dtype :: dtype

text \<open>
  The converted model: what the converter built, and the three metadata attributes the
  script assigns.
\<close>

record 'ml mlmodel =
  program :: 'ml
  short_description :: string
  author :: string
  license :: string

text \<open>The library calls of the script, with the arguments that are plain data.\<close>

datatype call =
    TokenizerFromPretrained string
  | ModelFromPretrained string
  | ModelEval
  | TokenizerCall string int
  | JitTrace "int list list" "int list list"
  | TracedEval
  | JitScript
  | ScriptedEval
  | CtConvert "tensor_type list" compute_unit
  | MlmodelSave string
  | OsPathAbspath string

text \<open>
  What an observer of a run sees, in order: the lines printed, the traceback printed by
  \<^verbatim>\<open>traceback.print_exc()\<close>, the construction of the wrapper, the attribute assignments,
  and every library call with its outcome.
\<close>

datatype event =
    Print string
  | PrintExc exn
  | Wrap
  | SetAttr string string
  | Call call
  | Returned call
  | Raised call exn

record 'w run_state =
  world :: 'w
  events :: "event list"

type_synonym ('w, 'a) action = "'w run_state \<Rightarrow> (exn + 'a) \<times> 'w run_state"

record ('w, 'tok, 'm, 'ts, 'ml) lib =
  tokenizer_from_pretrained :: "string \<Rightarrow> 'w \<Rightarrow> (exn + 'tok) \<times> 'w"
  model_from_pretrained :: "string \<Rightarrow> 'w \<Rightarrow> (exn + 'm) \<times> 'w"
  model_eval :: "'m \<Rightarrow> 'w \<Rightarrow> (exn + unit) \<times> 'w"
  tokenizer_call :: "'tok \<Rightarrow> string \<Rightarrow> int \<Rightarrow> 'w \<Rightarrow> (exn + int list list \<times> int list list) \<times> 'w"
  jit_trace :: "'m wrapper \<Rightarrow> int list list \<times> int list list \<Rightarrow> 'w \<Rightarrow> (exn + 'ts) \<times> 'w"
  jit_script :: "'m wrapper \<Rightarrow> 'w \<Rightarrow> (exn + 'ts) \<times> 'w"
  module_eval :: "'ts \<Rightarrow> 'w \<Rightarrow> (exn + unit) \<times> 'w"
  ct_convert :: "'ts \<Rightarrow> tensor_type list \<Rightarrow> compute_unit \<Rightarrow> 'w \<Rightarrow> (exn + 'ml mlmodel) \<times> 'w"
  mlmodel_save :: "'ml mlmodel \<Rightarrow> string \<Rightarrow> 'w \<Rightarrow> (exn + unit) \<times> 'w"
  os_path_abspath :: "string \<Rightarrow> 'w \<Rightarrow> (exn + string) \<times> 'w"

subsection \<open>Sequencing, raising and catching\<close>

text \<open>
  The state of a run is the world together with the events so far. An action takes it and
  gives back a value or the exception raised, with the state it leaves. \<open>bind\<close> is the
  sequence of two statements, the second reading the value of the first; an exception of
  the first ends both.
\<close>

definition ret :: "'a \<Rightarrow> ('w, 'a) action" where
  "ret x s = (Inr x, s)"

definition raise :: "exn \<Rightarrow> ('w, 'a) action" where
  "raise e s = (Inl e, s)"

definition bind :: "('w, 'a) action \<Rightarrow> ('a \<Rightarrow> ('w, 'b) action) \<Rightarrow> ('w, 'b) action" where
  "bind m f s = (case m s of (Inl e, s') \<Rightarrow> (Inl e, s') | (Inr x, s') \<Rightarrow> f x s')"

text \<open>\<^verbatim>\<open>try: m except Exception as e: handler\<close>.\<close>

definition try_except :: "('w, 'a) action \<Rightarrow> (exn \<Rightarrow> ('w, 'a) action) \<Rightarrow> ('w, 'a) action" where
  "try_except m handler s =
     (case m s of
        (Inl (Exception msg), s') \<Rightarrow> handler (Exception msg) s'
      | (Inl (BaseOnly msg), s') \<Rightarrow> (Inl (BaseOnly msg), s')
      | (Inl (SystemExit code), s') \<Rightarrow> (Inl (SystemExit code), s')
      | (Inr x, s') \<Rightarrow> (Inr x, s'))"

text \<open>Something observable happens: it is added to the events.\<close>

definition emit :: "event \<Rightarrow> ('w, unit) action" where
  "emit e s = (Inr (), s\<lparr>events := events s @ [e]\<rparr>)"

text \<open>A library call: the call is recorded, the operation runs on the world, its outcome is recorded.\<close>

definition lib_call :: "call \<Rightarrow> ('w \<Rightarrow> (exn + 'a) \<times> 'w) \<Rightarrow> ('w, 'a) action" where
  "lib_call c op s =
     (case op (world s) of
        (Inl e, w') \<Rightarrow> (Inl e, s\<lparr>world := w', events := events s @ [Call c, Raised c e]\<rparr>)
      | (Inr x, w') \<Rightarrow> (Inr x, s\<lparr>world := w', events := events s @ [Call c, Returned c]\<rparr>))"

text \<open>The state a process starts in: the world as found, nothing observed yet.\<close>

definition start :: "'w \<Rightarrow> 'w run_state" where
  "start w = \<lparr>world = w, events = []\<rparr>"

subsection \<open>convert\<close>

text \<open>\<^verbatim>\<open>s.endswith(suffix)\<close>.\<close>

definition endswith :: "string \<Rightarrow> string \<Rightarrow> bool" where
  "endswith s suffix \<longleftrightarrow> length suffix \<le> length s \<and> drop (length s - length suffix) s = suffix"

text \<open>\<^verbatim>\<open>t.to(dtype=torch.int32)\<close> on an integer tensor: every entry is wrapped into 32 bits.\<close>

definition to_int32 :: "int list list \<Rightarrow> int list list" where
  "to_int32 t = map (map (\<lambda>x. (x + 2 ^ 31) mod 2 ^ 32 - 2 ^ 31)) t"

text \<open>\<^verbatim>\<open>t.shape\<close> of a tensor with two axes.\<close>

definition shape_of :: "int list list \<Rightarrow> nat list" where
  "shape_of t = [length t, (case t of [] \<Rightarrow> 0 | row # _ \<Rightarrow> length row)]"

definition dummy_text :: string where
  "dummy_text = ''This is a sample input for tracing the model.''"

text \<open>The description holds an em dash, here in UTF-8.\<close>

definition short_description_text :: string where
  "short_description_text =
     ''All-MiniLM-L6-v2 embeddings (384-dim) '' @ [CHR 0xE2, CHR 0x80, CHR 0x94]
       @ '' accepts token IDs and attention mask.''"

text \<open>Lines 95 and 96: the name the package is saved under.\<close>

definition package_name :: "string \<Rightarrow> string" where
  "package_name output_package =
     (if \<not> endswith output_package ''.mlpackage''
      then output_package @ (if endswith output_package ''.mlpackage'' then [] else ''.mlpackage'')
      else output_package)"

definition convert :: "('w, 'tok, 'm, 'ts, 'ml) lib \<Rightarrow> string \<Rightarrow> int \<Rightarrow> string \<Rightarrow> ('w, string) action" where
  "convert lib model_name seq_len output_package =
     bind (emit (Print (''[1/6] Loading tokenizer and model: '' @ model_name))) (\<lambda>_.
     bind (lib_call (TokenizerFromPretrained model_name) (tokenizer_from_pretrained lib model_name)) (\<lambda>tokenizer.
     bind (lib_call (ModelFromPretrained model_name) (model_from_pretrained lib model_name)) (\<lambda>model.
     bind (lib_call ModelEval (model_eval lib model)) (\<lambda>_.
     bind (emit Wrap) (\<lambda>_.
     let wrapper = PoolingWrapper model in
     bind (emit (Print ''[2/6] Preparing dummy inputs for TorchScript trace'')) (\<lambda>_.
     bind (lib_call (TokenizerCall dummy_text seq_len) (tokenizer_call lib tokenizer dummy_text seq_len)) (\<lambda>encoded.
     let input_ids = to_int32 (fst encoded);
         attention_mask = to_int32 (snd encoded) in
     bind (emit (Print ''[3/6] Tracing wrapper to TorchScript (this may take a moment)...'')) (\<lambda>_.
     bind (try_except
             (bind (lib_call (JitTrace input_ids attention_mask) (jit_trace lib wrapper (input_ids, attention_mask))) (\<lambda>traced.
              bind (lib_call TracedEval (module_eval lib traced)) (\<lambda>_.
              ret traced)))
             (\<lambda>e.
              bind (emit (Print (''Tracing failed with error: '' @ str e))) (\<lambda>_.
              bind (emit (Print ''Trying torch.jit.script fallback...'')) (\<lambda>_.
              bind (lib_call JitScript (jit_script lib wrapper)) (\<lambda>traced.
              bind (lib_call ScriptedEval (module_eval lib traced)) (\<lambda>_.
              ret traced)))))) (\<lambda>traced.
     bind (emit (Print ''[4/6] Converting TorchScript -> Core ML (ML Program). This may take a while.'')) (\<lambda>_.
     let inputs = [\<lparr>name = ''input_ids'', shape = shape_of input_ids, dtype = Int32\<rparr>,
                   \<lparr>name = ''attention_mask'', shape = shape_of attention_mask, dtype = Int32\<rparr>] in
     bind (try_except
             (lib_call (CtConvert inputs ComputeUnit_ALL) (ct_convert lib traced inputs ComputeUnit_ALL))
             (\<lambda>e.
              bind (emit (Print (''Conversion failed: '' @ str e))) (\<lambda>_.
              raise e))) (\<lambda>mlmodel.
     bind (emit (SetAttr ''short_description'' short_description_text)) (\<lambda>_.
     let mlmodel = mlmodel\<lparr>short_description := short_description_text\<rparr> in
     bind (emit (SetAttr ''author'' ''Converted from sentence-transformers/all-MiniLM-L6-v2'')) (\<lambda>_.
     let mlmodel = mlmodel\<lparr>author := ''Converted from sentence-transformers/all-MiniLM-L6-v2''\<rparr> in
     bind (emit (SetAttr ''license'' ''Original model license: see Hugging Face model page'')) (\<lambda>_.
     let mlmodel = mlmodel\<lparr>license := ''Original model license: see Hugging Face model page''\<rparr> in
     let output_package = package_name output_package in
     bind (emit (Print (''[5/6] Saving Core ML ML Program package to '' @ [CHR 0x27] @ output_package @ [CHR 0x27]))) (\<lambda>_.
     bind (try_except
             (lib_call (MlmodelSave output_package) (mlmodel_save lib mlmodel output_package))
             (\<lambda>e.
              bind (emit (Print (''Failed to save as .mlpackage: '' @ str e))) (\<lambda>_.
              raise e))) (\<lambda>_.
     bind (emit (Print (''[6/6] Conversion complete '' @ [CHR 0xE2, CHR 0x9C, CHR 0x85]))) (\<lambda>_.
     bind (lib_call (OsPathAbspath output_package) (os_path_abspath lib output_package)) (\<lambda>abs_path.
     bind (emit (Print (''Saved ML Program package: '' @ abs_path))) (\<lambda>_.
     bind (emit (Print ''You can now drag this .mlpackage into Xcode (iOS 15+ / macOS 12+).'')) (\<lambda>_.
     ret abs_path))))))))))))))))))))"

subsection \<open>The entry point\<close>

text \<open>
  The \<^verbatim>\<open>__main__\<close> block after argument parsing: \<open>model\<close>, \<open>seq_len\<close> and \<open>output\<close>
  are the parsed arguments. \<^verbatim>\<open>sys.exit(1)\<close> raises \<^verbatim>\<open>SystemExit(1)\<close>, with which the
  process ends with status 1.
\<close>

definition main :: "('w, 'tok, 'm, 'ts, 'ml) lib \<Rightarrow> string \<Rightarrow> int \<Rightarrow> string \<Rightarrow> ('w, unit) action" where
  "main lib model seq_len output =
     try_except
       (bind (convert lib model seq_len output) (\<lambda>_. ret ()))
       (\<lambda>exc.
        bind (emit (Print (CHR 0x0A # ''Conversion failed with exception:''))) (\<lambda>_.
        bind (emit (PrintExc exc)) (\<lambda>_.
        raise (SystemExit 1))))"

subsection \<open>Simulated libraries for concrete runs\<close>

text \<open>
  A small library to run the pipeline on: the world is the list of package names saved so
  far, the transformer has hidden size 2, the tokenizer knows one text and the length 6 only,
  and nothing else fails. The variants differ in one operation each.
\<close>

definition toy_base :: base_model where
  "toy_base input_ids attention_mask = map (map (\<lambda>i. [real_of_int i, 1])) input_ids"

definition sim_lib :: "(string list, string, base_model, string, string) lib" where
  "sim_lib = \<lparr>
     tokenizer_from_pretrained = (\<lambda>nm w. (Inr nm, w)),
     model_from_pretrained = (\<lambda>nm w. (Inr toy_base, w)),
     model_eval = (\<lambda>m w. (Inr (), w)),
     tokenizer_call = (\<lambda>tok text n w.
        if n = 6 then (Inr ([[101, 2023, 2003, 102, 0, 0]], [[1, 1, 1, 1, 0, 0]]), w)
        else (Inl (Exception ''unsupported max_length''), w)),
     jit_trace = (\<lambda>wr inp w. (Inr ''traced'', w)),
     jit_script = (\<lambda>wr w. (Inr ''scripted'', w)),
     module_eval = (\<lambda>ts w. (Inr (), w)),
     ct_convert = (\<lambda>ts inputs cu w.
        (Inr \<lparr>program = ts, short_description = [], author = [], license = []\<rparr>, w)),
     mlmodel_save = (\<lambda>ml path w. (Inr (), path # w)),
     os_path_abspath = (\<lambda>path w. (Inr (''/work/'' @ path), w))\<rparr>"

definition trace_fails_lib :: "(string list, string, base_model, string, string) lib" where
  "trace_fails_lib = sim_lib\<lparr>jit_trace := (\<lambda>wr inp w. (Inl (Exception ''unsupported op''), w))\<rparr>"

definition traced_eval_fails_lib :: "(string list, string, base_model, string, string) lib" where
  "traced_eval_fails_lib = sim_lib\<lparr>module_eval :=
     (\<lambda>ts w. if ts = ''traced'' then (Inl (Exception ''eval failed''), w) else (Inr (), w))\<rparr>"

definition interrupted_lib :: "(string list, string, base_model, string, string) lib" where
  "interrupted_lib = sim_lib\<lparr>jit_trace := (\<lambda>wr inp w. (Inl (BaseOnly ''KeyboardInterrupt''), w))\<rparr>"

definition disk_full_lib :: "(string list, string, base_model, string, string) lib" where
  "disk_full_lib = sim_lib\<lparr>mlmodel_save := (\<lambda>ml path w. (Inl (Exception ''disk full''), w))\<rparr>"

text \<open>
  A tokenizer that cannot cut the text below its two special tokens: asked for fewer than
  two tokens it returns all twelve.
\<close>

definition untruncated_lib :: "(string list, string, base_model, string, string) lib" where
  "untruncated_lib = sim_lib\<lparr>tokenizer_call := (\<lambda>tok text n w.
     if n < 2
     then (Inr ([[101, 2023, 2003, 1037, 7099, 7953, 2005, 16057, 1996, 2944, 1012, 102]],
                [[1, 1, 1, 1, 1, 1, 1, 1, 1, 1, 1, 1]]), w)
     else tokenizer_call sim_lib tok text n w)\<rparr>"

subsection \<open>The order of the steps\<close>












section \<open>Properties of PoolingWrapper.forward\<close>

subsection \<open>The denominator of the mean\<close>

lemma forward_via_pooled:
  "forward self input_ids attention_mask = normalize_dim1 (forward_pooled self input_ids attention_mask)"
  by (simp add: forward_def forward_pooled_def forward_denom_def Let_def)

lemma mask_row_sum:
  "foldr (map2 (+)) (map (\<lambda>m. [real_of_int m]) ms) [0] = [real_of_int (sum_list ms)]"
  by (induction ms) simp_all

lemma forward_denom_rows:
  "forward_denom attention_mask = map (\<lambda>ms. [max (1 / 10 ^ 9) (real_of_int (sum_list ms))]) attention_mask"
  by (simp add: forward_denom_def clamp_min_def sum_dim1_def unsqueeze_to_float_def mask_row_sum)

lemma clamped_rows:
  "0 < (c::real) \<Longrightarrow>
   list_all (\<lambda>d. length d = 1 \<and> c \<le> hd d \<and> hd d \<noteq> 0) (map (\<lambda>ms. [max c (f ms)]) xs)"
  by (auto simp: list_all_iff max_def)

lemma denom_rows_clamped:
  "list_all (\<lambda>d. length d = 1 \<and> 1 / 10 ^ 9 \<le> hd d \<and> hd d \<noteq> 0) (forward_denom attention_mask)"
  unfolding forward_denom_rows by (rule clamped_rows) simp

text \<open>
  Claim C9. The division of the mean pooling is guarded. The divisor tensor of
  \<^verbatim>\<open>forward\<close> is \<open>forward_denom attention_mask\<close>: \<^verbatim>\<open>forward\<close> is the normalisation of
  the summed hidden states divided by it. For every attention mask, an all-zero one
  included, each of its rows holds exactly one number, that number is at least \<open>1e-9\<close>,
  and so it is never zero.
\<close>

theorem forward_division_guarded:
  "forward self input_ids attention_mask =
     normalize_dim1
       (div_bcast
          (sum_dim1 (last_dim (base self input_ids attention_mask))
             (mul_bcast (base self input_ids attention_mask) (unsqueeze_to_float attention_mask)))
          (forward_denom attention_mask))
   \<and> list_all (\<lambda>d. length d = 1 \<and> 1 / 10 ^ 9 \<le> hd d \<and> hd d \<noteq> 0) (forward_denom attention_mask)"
proof
  show "forward self input_ids attention_mask =
     normalize_dim1
       (div_bcast
          (sum_dim1 (last_dim (base self input_ids attention_mask))
             (mul_bcast (base self input_ids attention_mask) (unsqueeze_to_float attention_mask)))
          (forward_denom attention_mask))"
    by (simp add: forward_def forward_denom_def Let_def)
  show "list_all (\<lambda>d. length d = 1 \<and> 1 / 10 ^ 9 \<le> hd d \<and> hd d \<noteq> 0) (forward_denom attention_mask)"
    by (rule denom_rows_clamped)
qed

text \<open>At an all-zero mask the divisor is the clamp value itself.\<close>

theorem forward_division_guarded_witness:
  "forward_denom [[0, 0, 0]] = [[1 / 10 ^ 9]]
   \<and> list_all (\<lambda>d. length d = 1 \<and> 1 / 10 ^ 9 \<le> hd d \<and> hd d \<noteq> 0) (forward_denom [[0, 0, 0]])"
proof
  show "forward_denom [[0, 0, 0]] = [[1 / 10 ^ 9]]"
    by (simp add: forward_denom_rows)
  from forward_division_guarded[of "PoolingWrapper (fixed_hidden [])" "[]" "[[0, 0, 0]]"]
  show "list_all (\<lambda>d. length d = 1 \<and> 1 / 10 ^ 9 \<le> hd d \<and> hd d \<noteq> 0) (forward_denom [[0, 0, 0]])"
    by (rule conjunct2)
qed

subsection \<open>L2 normalisation\<close>

lemma l2_norm_alt: "l2_norm v = sqrt (sum_list (map (\<lambda>x. x ^ 2) v))"
  by (simp add: l2_norm_def)

lemma sum_sq_nonneg: "0 \<le> sum_list (map (\<lambda>x. x ^ 2) (v::real list))"
  by (induction v) simp_all

lemma sum_sq_scale:
  "sum_list (map (\<lambda>x. (x / c) ^ 2) (v::real list)) = sum_list (map (\<lambda>x. x ^ 2) v) / c ^ 2"
  by (induction v) (simp_all add: power_divide add_divide_distrib)

lemma l2_norm_scale:
  assumes "0 \<le> c"
  shows "l2_norm (map (\<lambda>x. x / c) v) = l2_norm v / c"
proof -
  have "l2_norm (map (\<lambda>x. x / c) v) = sqrt (sum_list (map (\<lambda>x. (x / c) ^ 2) v))"
    by (simp add: l2_norm_alt comp_def)
  also have "\<dots> = sqrt (sum_list (map (\<lambda>x. x ^ 2) v) / c ^ 2)"
    by (simp only: sum_sq_scale)
  also have "\<dots> = l2_norm v / c"
    using assms by (simp add: l2_norm_alt real_sqrt_divide)
  finally show ?thesis .
qed

lemma normalize_eps_pos: "0 < normalize_eps"
  by (simp add: normalize_eps_def)

lemma normalize_row_norm:
  "l2_norm (map (\<lambda>x. x / max (l2_norm v) normalize_eps) v) = l2_norm v / max (l2_norm v) normalize_eps"
  by (rule l2_norm_scale) (simp add: normalize_eps_def max_def)

lemma l2_norm_pair: "0 \<le> c \<Longrightarrow> a ^ 2 + b ^ 2 = c ^ 2 \<Longrightarrow> l2_norm [a, b] = c"
  by (simp add: l2_norm_alt real_sqrt_unique)

lemmas tensor_defs = forward_def forward_pooled_def forward_denom_def unsqueeze_to_float_def
  last_dim_def mul_bcast_def sum_dim1_def clamp_min_def div_bcast_def normalize_dim1_def
  fixed_hidden_def

text \<open>
  Claim C3, as stated: for every input the vector returned by \<^verbatim>\<open>forward\<close> has Euclidean
  norm 1. It fails at an all-zero attention mask: the masked sum is the zero vector, the
  clamped denominator keeps the quotient at zero, and normalisation divides the zero vector
  by \<open>eps\<close>, so the returned vector is zero and its norm is 0.
\<close>

theorem forward_unit_norm_counterexample:
  "forward (PoolingWrapper (fixed_hidden [[[1, 2], [3, 4]]])) [[101, 102]] [[0, 0]] = [[0, 0]]
   \<and> l2_norm (forward (PoolingWrapper (fixed_hidden [[[1, 2], [3, 4]]])) [[101, 102]] [[0, 0]] ! 0) \<noteq> 1"
  by (simp add: tensor_defs l2_norm_def)

text \<open>
  Claim C3, amended. In exact arithmetic, every returned vector whose pooled vector has
  Euclidean norm at least \<open>eps = 1e-12\<close> has Euclidean norm 1. A pooled vector of smaller
  norm, the zero vector of an all-zero mask among them, is divided by \<open>eps\<close> instead, and
  the returned norm is the pooled norm over \<open>eps\<close>, which is below 1.
\<close>

theorem forward_unit_norm:
  assumes "i < length (forward_pooled self input_ids attention_mask)"
  shows "(normalize_eps \<le> l2_norm (forward_pooled self input_ids attention_mask ! i)
            \<longrightarrow> l2_norm (forward self input_ids attention_mask ! i) = 1)
       \<and> (l2_norm (forward_pooled self input_ids attention_mask ! i) < normalize_eps
            \<longrightarrow> l2_norm (forward self input_ids attention_mask ! i)
                 = l2_norm (forward_pooled self input_ids attention_mask ! i) / normalize_eps
              \<and> l2_norm (forward self input_ids attention_mask ! i) < 1)"
proof -
  let ?p = "forward_pooled self input_ids attention_mask ! i"
  have out: "l2_norm (forward self input_ids attention_mask ! i) = l2_norm ?p / max (l2_norm ?p) normalize_eps"
    using assms by (simp add: forward_via_pooled normalize_dim1_def normalize_row_norm)
  show ?thesis
    unfolding out using normalize_eps_pos by (auto simp: max_def)
qed

theorem forward_unit_norm_witness:
  "0 < length (forward_pooled (PoolingWrapper (fixed_hidden [[[3, 4], [7, 7]]])) [[101, 0]] [[1, 0]])
   \<and> normalize_eps \<le> l2_norm (forward_pooled (PoolingWrapper (fixed_hidden [[[3, 4], [7, 7]]])) [[101, 0]] [[1, 0]] ! 0)
   \<and> l2_norm (forward (PoolingWrapper (fixed_hidden [[[3, 4], [7, 7]]])) [[101, 0]] [[1, 0]] ! 0) = 1"
proof -
  let ?self = "PoolingWrapper (fixed_hidden [[[3, 4], [7, 7]]])"
  have p: "forward_pooled ?self [[101, 0]] [[1, 0]] = [[3, 4]]"
    by (simp add: tensor_defs)
  have n: "l2_norm [3, 4] = 5"
    by (rule l2_norm_pair) simp_all
  have len: "0 < length (forward_pooled ?self [[101, 0]] [[1, 0]])"
    by (simp add: p)
  have big: "normalize_eps \<le> l2_norm (forward_pooled ?self [[101, 0]] [[1, 0]] ! 0)"
    by (simp add: p n normalize_eps_def)
  from forward_unit_norm[OF len] big
  have "l2_norm (forward ?self [[101, 0]] [[1, 0]] ! 0) = 1" by blast
  with len big show ?thesis by blast
qed

subsection \<open>Mean pooling\<close>

lemma column_sums:
  "(\<forall>r \<in> set rows. length r = w) \<Longrightarrow>
   foldr (map2 (+)) rows (replicate w (0::real)) = map (\<lambda>j. sum_list (map (\<lambda>r. r ! j) rows)) [0..<w]"
proof (induction rows)
  case Nil
  show ?case by (simp add: map_replicate_const)
next
  case (Cons r rows)
  then have len: "length r = w" and ih: "foldr (map2 (+)) rows (replicate w 0) = map (\<lambda>j. sum_list (map (\<lambda>r. r ! j) rows)) [0..<w]"
    by simp_all
  show ?case
    unfolding foldr.simps comp_def ih
    using len by (intro nth_equalityI) simp_all
qed

lemma masked_rows:
  "map2 (\<lambda>v m. map (\<lambda>x. x * hd m) v) hs (map (\<lambda>m. [real_of_int m]) ms)
   = map2 (\<lambda>v m. map (\<lambda>x. x * real_of_int m) v) hs ms"
  by (auto simp: zip_map2)

lemma map2_fuse:
  "map2 F (map2 G xs ys) (map H ys) = map2 (\<lambda>x y. F (G x y) (H y)) xs ys"
proof (induction xs arbitrary: ys)
  case Nil
  show ?case by simp
next
  case (Cons x xs)
  show ?case by (cases ys) (simp_all add: Cons.IH)
qed

lemma map2_map_right: "map2 F xs (map H ys) = map2 (\<lambda>x y. F x (H y)) xs ys"
  by (auto simp: zip_map2)

lemma zip_zip_same: "map F (zip (zip xs ys) ys) = map (\<lambda>p. F (p, snd p)) (zip xs ys)"
proof (induction xs arbitrary: ys)
  case Nil
  show ?case by simp
next
  case (Cons x xs)
  show ?case by (cases ys) (simp_all add: Cons.IH)
qed

lemma forward_pooled_rows:
  "forward_pooled self input_ids attention_mask =
     map2 (pooled_row (last_dim (base self input_ids attention_mask)))
       (base self input_ids attention_mask) attention_mask"
  unfolding forward_pooled_def forward_denom_rows Let_def div_bcast_def sum_dim1_def mul_bcast_def
    unsqueeze_to_float_def pooled_row_def
  by (simp add: map2_map_right zip_map1 zip_map2 split_def comp_def zip_zip_same)

lemma weighted_column:
  "length rows = length ms \<Longrightarrow> j < w \<Longrightarrow> (\<forall>v \<in> set rows. length v = w) \<Longrightarrow>
   sum_list (map (\<lambda>r. r ! j) (map2 (\<lambda>v m. map (\<lambda>x. x * real_of_int m) v) rows ms))
   = sum_list (map (\<lambda>(h, m). h ! j * real_of_int m) (zip rows ms))"
  by (induction rows ms rule: list_induct2) simp_all

lemma pooled_row_weighted:
  assumes "length rows = length ms" and "\<forall>v \<in> set rows. length v = w" and "1 \<le> sum_list ms"
  shows "pooled_row w rows ms = weighted_mean_row w rows ms"
proof -
  let ?M = "map2 (\<lambda>v m. map (\<lambda>x. x * real_of_int m) v) rows ms"
  have widths: "\<forall>r \<in> set ?M. length r = w"
    using assms(2) by (auto dest: set_zip_leftD)
  have d: "max (1 / 10 ^ 9) (real_of_int (sum_list ms)) = real_of_int (sum_list ms)"
    using assms(3) by (simp add: max_def)
  have cols: "map (\<lambda>j. sum_list (map (\<lambda>r. r ! j) ?M)) [0..<w]
            = map (\<lambda>j. sum_list (map (\<lambda>(h, m). h ! j * real_of_int m) (zip rows ms))) [0..<w]"
  proof (rule map_cong[OF refl])
    fix j assume "j \<in> set [0..<w]"
    then have "j < w" by simp
    from weighted_column[OF assms(1) this assms(2)]
    show "sum_list (map (\<lambda>r. r ! j) ?M) = sum_list (map (\<lambda>(h, m). h ! j * real_of_int m) (zip rows ms))" .
  qed
  have "pooled_row w rows ms = map (\<lambda>x. x / real_of_int (sum_list ms)) (map (\<lambda>j. sum_list (map (\<lambda>r. r ! j) ?M)) [0..<w])"
    unfolding pooled_row_def column_sums[OF widths] d ..
  also have "\<dots> = weighted_mean_row w rows ms"
    unfolding cols weighted_mean_row_def by (simp add: comp_def)
  finally show ?thesis .
qed

lemma binary_column:
  "set ms \<subseteq> {0, 1} \<Longrightarrow>
   sum_list (map (\<lambda>(h, m). h ! j * real_of_int m) (zip rows ms)) = sum_list (map (\<lambda>h. h ! j) (unmasked rows ms))"
proof (induction rows arbitrary: ms)
  case Nil
  show ?case by (simp add: unmasked_def)
next
  case (Cons r rows)
  show ?case
  proof (cases ms)
    case Nil
    then show ?thesis by (simp add: unmasked_def)
  next
    case (Cons m ms')
    with Cons.prems have "m = 0 \<or> m = 1" and "set ms' \<subseteq> {0, 1}" by auto
    with Cons.IH[of ms'] Cons show ?thesis by (auto simp: unmasked_def)
  qed
qed

lemma binary_count:
  "length rows = length ms \<Longrightarrow> set ms \<subseteq> {0, 1} \<Longrightarrow> sum_list ms = int (length (unmasked rows ms))"
  by (induction rows ms rule: list_induct2) (auto simp: unmasked_def)

lemma binary_sum_nonneg: "set ms \<subseteq> {0, 1} \<Longrightarrow> (0::int) \<le> sum_list ms"
  by (induction ms) auto

lemma binary_sum_pos: "set ms \<subseteq> {0, 1} \<Longrightarrow> (1::int) \<in> set ms \<Longrightarrow> 1 \<le> sum_list ms"
proof (induction ms)
  case Nil
  then show ?case by simp
next
  case (Cons m ms)
  from Cons.prems(1) have nn: "0 \<le> sum_list ms" and m: "m = 0 \<or> m = 1"
    by (auto intro: binary_sum_nonneg)
  show ?case
  proof (cases "m = 1")
    case True
    with nn show ?thesis by simp
  next
    case False
    with m Cons show ?thesis by auto
  qed
qed

lemma weighted_row_ref:
  assumes "length rows = length ms" and "set ms \<subseteq> {0, 1}"
  shows "weighted_mean_row w rows ms = mean_pool_ref_row w rows ms"
  unfolding weighted_mean_row_def mean_pool_ref_row_def Let_def
  by (simp add: binary_column[OF assms(2)] binary_count[OF assms])

text \<open>
  Claim C1, as stated: the pooling of \<^verbatim>\<open>forward\<close> equals the reference mean pooling (sum
  of the hidden states at the unmasked positions over their number) whenever the mask has
  a nonzero entry. It fails at a mask with an entry other than 0 and 1: the code weighs
  each hidden vector by its mask value. With the mask \<open>[2, 1]\<close> and the hidden vectors
  \<open>[-3, 1]\<close> and \<open>[6, 3]\<close> the code pools to \<open>[0, 5/3]\<close> and returns \<open>[0, 1]\<close>, while
  the reference pools to \<open>[3/2, 2]\<close>, whose normalisation is \<open>[3/5, 4/5]\<close>.
\<close>

theorem forward_mean_pooling_counterexample:
  "shapes_agree [[[-3, 1], [6, 3]]] [[2, 1]]
   \<and> forward_pooled (PoolingWrapper (fixed_hidden [[[-3, 1], [6, 3]]])) [[101, 102]] [[2, 1]] = [[0, 5 / 3]]
   \<and> mean_pool_ref [[[-3, 1], [6, 3]]] [[2, 1]] = [[3 / 2, 2]]
   \<and> forward (PoolingWrapper (fixed_hidden [[[-3, 1], [6, 3]]])) [[101, 102]] [[2, 1]] = [[0, 1]]
   \<and> normalize_dim1 (mean_pool_ref [[[-3, 1], [6, 3]]] [[2, 1]]) = [[3 / 5, 4 / 5]]
   \<and> forward (PoolingWrapper (fixed_hidden [[[-3, 1], [6, 3]]])) [[101, 102]] [[2, 1]]
       \<noteq> normalize_dim1 (mean_pool_ref [[[-3, 1], [6, 3]]] [[2, 1]])"
proof -
  let ?self = "PoolingWrapper (fixed_hidden [[[-3, 1], [6, 3]]])"
  have s: "shapes_agree [[[-3, 1], [6, 3]]] [[2, 1]]"
    by (simp add: shapes_agree_def last_dim_def)
  have p: "forward_pooled ?self [[101, 102]] [[2, 1]] = [[0, 5 / 3]]"
    by (simp add: tensor_defs)
  have r: "mean_pool_ref [[[-3, 1], [6, 3]]] [[2, 1]] = [[3 / 2, 2]]"
    by (simp add: mean_pool_ref_def mean_pool_ref_row_def unmasked_def last_dim_def upt_rec[of 0] upt_rec[of 1])
  have n1: "l2_norm [0, 5 / 3] = 5 / 3"
    by (rule l2_norm_pair) (simp_all add: power2_eq_square)
  have n2: "l2_norm [3 / 2, 2] = 5 / 2"
    by (rule l2_norm_pair) (simp_all add: power2_eq_square)
  have f: "forward ?self [[101, 102]] [[2, 1]] = [[0, 1]]"
    by (simp add: forward_via_pooled p normalize_dim1_def n1 normalize_eps_def)
  have g: "normalize_dim1 (mean_pool_ref [[[-3, 1], [6, 3]]] [[2, 1]]) = [[3 / 5, 4 / 5]]"
    by (simp add: r normalize_dim1_def n2 normalize_eps_def)
  have "forward ?self [[101, 102]] [[2, 1]] \<noteq> normalize_dim1 (mean_pool_ref [[[-3, 1], [6, 3]]] [[2, 1]])"
    unfolding f g by simp
  with s p r f g show ?thesis by blast
qed

text \<open>
  Claim C1, amended. Let the hidden states have the shape of the mask. Then
  \<^verbatim>\<open>forward\<close> returns the L2 normalisation of its pooled tensor; the pooled tensor is the
  weighted mean (each hidden vector times its mask value, summed over the sequence axis,
  divided by the sum of the mask values) whenever the mask values of every example sum to
  at least 1; and it is the reference mean pooling whenever every mask entry is 0 or 1 and
  every example has an entry 1.
\<close>

theorem forward_mean_pooling:
  assumes "shapes_agree (base self input_ids attention_mask) attention_mask"
  shows "forward self input_ids attention_mask = normalize_dim1 (forward_pooled self input_ids attention_mask)
       \<and> ((\<forall>ms \<in> set attention_mask. 1 \<le> sum_list ms) \<longrightarrow>
            forward_pooled self input_ids attention_mask
              = weighted_mean (base self input_ids attention_mask) attention_mask)
       \<and> (binary_mask attention_mask \<longrightarrow>
            forward_pooled self input_ids attention_mask
              = mean_pool_ref (base self input_ids attention_mask) attention_mask
          \<and> forward self input_ids attention_mask
              = normalize_dim1 (mean_pool_ref (base self input_ids attention_mask) attention_mask))"
proof -
  let ?lh = "base self input_ids attention_mask"
  have norm: "forward self input_ids attention_mask = normalize_dim1 (forward_pooled self input_ids attention_mask)"
    by (rule forward_via_pooled)
  have shape: "length rows = length ms \<and> (\<forall>v \<in> set rows. length v = last_dim ?lh)"
    if "(rows, ms) \<in> set (zip ?lh attention_mask)" for rows ms
    using assms that by (auto simp: shapes_agree_def)
  have weighted: "forward_pooled self input_ids attention_mask = weighted_mean ?lh attention_mask"
    if pos: "\<forall>ms \<in> set attention_mask. 1 \<le> sum_list ms"
    unfolding forward_pooled_rows weighted_mean_def
  proof (rule map_cong[OF refl], clarify)
    fix rows ms assume m: "(rows, ms) \<in> set (zip ?lh attention_mask)"
    then have "ms \<in> set attention_mask" by (rule set_zip_rightD)
    with pos have "1 \<le> sum_list ms" by blast
    with shape[OF m] show "pooled_row (last_dim ?lh) rows ms = weighted_mean_row (last_dim ?lh) rows ms"
      by (intro pooled_row_weighted) simp_all
  qed
  have ref: "forward_pooled self input_ids attention_mask = mean_pool_ref ?lh attention_mask"
    if bin: "binary_mask attention_mask"
    unfolding forward_pooled_rows mean_pool_ref_def
  proof (rule map_cong[OF refl], clarify)
    fix rows ms assume m: "(rows, ms) \<in> set (zip ?lh attention_mask)"
    then have "ms \<in> set attention_mask" by (rule set_zip_rightD)
    with bin have b: "set ms \<subseteq> {0, 1}" "1 \<in> set ms" by (auto simp: binary_mask_def)
    from shape[OF m] have l: "length rows = length ms" and w: "\<forall>v \<in> set rows. length v = last_dim ?lh"
      by simp_all
    show "pooled_row (last_dim ?lh) rows ms = mean_pool_ref_row (last_dim ?lh) rows ms"
      using pooled_row_weighted[OF l w binary_sum_pos[OF b]] weighted_row_ref[OF l b(1)] by simp
  qed
  from norm weighted ref show ?thesis by simp
qed

theorem forward_mean_pooling_witness:
  "shapes_agree (base (PoolingWrapper (fixed_hidden [[[1, 2], [5, 6], [9, 9]]])) [[101, 102, 0]] [[1, 1, 0]]) [[1, 1, 0]]
   \<and> binary_mask [[1, 1, 0]]
   \<and> mean_pool_ref [[[1, 2], [5, 6], [9, 9]]] [[1, 1, 0]] = [[3, 4]]
   \<and> forward_pooled (PoolingWrapper (fixed_hidden [[[1, 2], [5, 6], [9, 9]]])) [[101, 102, 0]] [[1, 1, 0]] = [[3, 4]]
   \<and> forward (PoolingWrapper (fixed_hidden [[[1, 2], [5, 6], [9, 9]]])) [[101, 102, 0]] [[1, 1, 0]]
       = normalize_dim1 [[3, 4]]"
proof -
  let ?self = "PoolingWrapper (fixed_hidden [[[1, 2], [5, 6], [9, 9]]])"
  have s: "shapes_agree (base ?self [[101, 102, 0]] [[1, 1, 0]]) [[1, 1, 0]]"
    by (simp add: fixed_hidden_def shapes_agree_def last_dim_def)
  have m: "binary_mask [[1, 1, 0]]"
    by (simp add: binary_mask_def)
  have r: "mean_pool_ref [[[1, 2], [5, 6], [9, 9]]] [[1, 1, 0]] = [[3, 4]]"
    by (simp add: mean_pool_ref_def mean_pool_ref_row_def unmasked_def last_dim_def upt_rec[of 0] upt_rec[of 1])
  from forward_mean_pooling[OF s] m
  have "forward_pooled ?self [[101, 102, 0]] [[1, 1, 0]] = mean_pool_ref (base ?self [[101, 102, 0]] [[1, 1, 0]]) [[1, 1, 0]]"
    and "forward ?self [[101, 102, 0]] [[1, 1, 0]] = normalize_dim1 (mean_pool_ref (base ?self [[101, 102, 0]] [[1, 1, 0]]) [[1, 1, 0]])"
    by blast+
  with s m r show ?thesis by (simp add: fixed_hidden_def)
qed

section \<open>Properties of the pipeline\<close>

subsection \<open>Running the pipeline step by step\<close>

text \<open>
  A run from a state given by its two fields is taken apart one step at a time: every
  rule below names the outcomes of the first step and the state each of them leaves.
\<close>

lemma bind_assoc: "bind (bind m f) g = bind m (\<lambda>x. bind (f x) g)"
  by (auto simp: bind_def fun_eq_iff split: prod.splits sum.splits)

lemma bind_retE:
  assumes "bind (ret x) f s = (r, s')"
  obtains "f x s = (r, s')"
  using assms by (simp add: bind_def ret_def)

lemma bind_emitE:
  assumes "bind (emit e) f \<lparr>world = w, events = evs\<rparr> = (r, s')"
  obtains "f () \<lparr>world = w, events = evs @ [e]\<rparr> = (r, s')"
  using assms by (simp add: bind_def emit_def)

lemma bind_lib_callE:
  assumes "bind (lib_call c op) f \<lparr>world = w, events = evs\<rparr> = (r, s')"
  obtains (raised) e w' where "op w = (Inl e, w')" "r = Inl e"
      "s' = \<lparr>world = w', events = evs @ [Call c, Raised c e]\<rparr>"
    | (returned) x w' where "op w = (Inr x, w')"
      "f x \<lparr>world = w', events = evs @ [Call c, Returned c]\<rparr> = (r, s')"
  using assms by (auto simp: bind_def lib_call_def split: prod.splits sum.splits)

lemma bind_try_lib_callE:
  assumes "bind (try_except (lib_call c op) h) g \<lparr>world = w, events = evs\<rparr> = (r, s')"
  obtains (caught) msg w' where "op w = (Inl (Exception msg), w')"
      "bind (h (Exception msg)) g \<lparr>world = w', events = evs @ [Call c, Raised c (Exception msg)]\<rparr> = (r, s')"
    | (base_only) msg w' where "op w = (Inl (BaseOnly msg), w')" "r = Inl (BaseOnly msg)"
      "s' = \<lparr>world = w', events = evs @ [Call c, Raised c (BaseOnly msg)]\<rparr>"
    | (system_exit) code w' where "op w = (Inl (SystemExit code), w')" "r = Inl (SystemExit code)"
      "s' = \<lparr>world = w', events = evs @ [Call c, Raised c (SystemExit code)]\<rparr>"
    | (returned) x w' where "op w = (Inr x, w')"
      "g x \<lparr>world = w', events = evs @ [Call c, Returned c]\<rparr> = (r, s')"
  using assms
  by (auto simp: bind_def try_except_def lib_call_def split: prod.splits sum.splits exn.splits)

lemma bind_try_bind_lib_callE:
  assumes "bind (try_except (bind (lib_call c op) f) h) g \<lparr>world = w, events = evs\<rparr> = (r, s')"
  obtains (caught) msg w' where "op w = (Inl (Exception msg), w')"
      "bind (h (Exception msg)) g \<lparr>world = w', events = evs @ [Call c, Raised c (Exception msg)]\<rparr> = (r, s')"
    | (base_only) msg w' where "op w = (Inl (BaseOnly msg), w')" "r = Inl (BaseOnly msg)"
      "s' = \<lparr>world = w', events = evs @ [Call c, Raised c (BaseOnly msg)]\<rparr>"
    | (system_exit) code w' where "op w = (Inl (SystemExit code), w')" "r = Inl (SystemExit code)"
      "s' = \<lparr>world = w', events = evs @ [Call c, Raised c (SystemExit code)]\<rparr>"
    | (returned) x w' where "op w = (Inr x, w')"
      "bind (try_except (f x) h) g \<lparr>world = w', events = evs @ [Call c, Returned c]\<rparr> = (r, s')"
  using assms
  by (auto simp: bind_def try_except_def lib_call_def split: prod.splits sum.splits exn.splits)

lemma bind_try_retE:
  assumes "bind (try_except (ret x) h) g s = (r, s')"
  obtains "g x s = (r, s')"
  using assms by (simp add: bind_def try_except_def ret_def)

lemma bind_bindE:
  assumes "bind (bind m f) g s = (r, s')"
  obtains "bind m (\<lambda>x. bind (f x) g) s = (r, s')"
  using assms by (simp add: bind_assoc)

lemma bind_raiseE:
  assumes "bind (raise e) f s = (r, s')"
  obtains "r = Inl e" "s' = s"
  using assms by (auto simp: bind_def raise_def)

lemma retE:
  assumes "ret x s = (r, s')"
  obtains "r = Inr x" "s' = s"
  using assms by (auto simp: ret_def)

lemmas run_elims = bind_retE bind_emitE bind_lib_callE bind_try_lib_callE bind_try_bind_lib_callE
  bind_try_retE bind_raiseE retE bind_bindE

subsection \<open>The fallback from tracing to scripting\<close>

lemma script_iff_trace_block_raised:
  assumes "convert lib model_name seq_len output_package (start w) = (r, s')"
  shows "Call JitScript \<in> set (events s') \<longleftrightarrow>
         (\<exists>msg. (\<exists>ids mask. Raised (JitTrace ids mask) (Exception msg) \<in> set (events s'))
                    \<or> Raised TracedEval (Exception msg) \<in> set (events s'))"
  using assms unfolding convert_def Let_def start_def
  apply (elim run_elims)
  apply simp_all
  done

lemma script_at_most_once:
  assumes "convert lib model_name seq_len output_package (start w) = (r, s')"
  shows "count_list (events s') (Call JitScript) \<le> 1"
  using assms unfolding convert_def Let_def start_def
  apply (elim run_elims)
  apply simp_all
  done

lemma raised_caught_or_propagated:
  assumes "convert lib model_name seq_len output_package (start w) = (r, s')"
    and "Raised c e \<in> set (events s')"
  shows "r = Inl e \<or> (\<exists>msg. e = Exception msg \<and> (c = TracedEval \<or> (\<exists>ids mask. c = JitTrace ids mask)))"
  using assms unfolding convert_def Let_def start_def
  apply (elim run_elims)
  apply auto
  done

subsection \<open>The name of the saved package\<close>

lemma endswith_append: "endswith (s @ suffix) suffix"
  by (simp add: endswith_def)

lemma package_name_endswith: "endswith (package_name output_package) ''.mlpackage''"
  unfolding package_name_def using endswith_append[of output_package "''.mlpackage''"]
  by (simp del: append.simps)

lemma package_name_appends:
  "\<not> endswith output_package ''.mlpackage'' \<Longrightarrow> package_name output_package = output_package @ ''.mlpackage''"
  by (simp add: package_name_def)

lemma package_name_keeps:
  "endswith output_package ''.mlpackage'' \<Longrightarrow> package_name output_package = output_package"
  by (simp add: package_name_def)

lemma package_name_idem: "package_name (package_name output_package) = package_name output_package"
  by (rule package_name_keeps) (rule package_name_endswith)

lemma saves_package_name:
  assumes "convert lib model_name seq_len output_package (start w) = (r, s')"
    and "Call (MlmodelSave p) \<in> set (events s')"
  shows "p = package_name output_package"
  using assms unfolding convert_def Let_def start_def
  apply (elim run_elims)
  apply simp_all
  done


subsection \<open>The entry point and failures\<close>



lemma main_on_success:
  assumes "convert lib model seq_len output s = (Inr path, s1)"
  shows "main lib model seq_len output s = (Inr (), s1)"
  using assms by (simp add: main_def try_except_def bind_def ret_def)



subsection \<open>What the converter is told, and the shape of what the wrapper returns\<close>





subsection \<open>The course of a successful run\<close>



subsection \<open>Evaluating a run on a concrete library\<close>

text \<open>
  Rewrite rules that run the pipeline forwards, one step at a time, once the outcome of
  each library operation is known.
\<close>

lemma bind_emit: "bind (emit e) f s = f () (s\<lparr>events := events s @ [e]\<rparr>)"
  by (simp add: bind_def emit_def)

lemma bind_ret: "bind (ret x) f s = f x s"
  by (simp add: bind_def ret_def)

lemma bind_raise: "bind (raise e) f s = (Inl e, s)"
  by (simp add: bind_def raise_def)

lemma bind_lib_call_Inr:
  "op (world s) = (Inr x, w') \<Longrightarrow>
   bind (lib_call c op) f s = f x (s\<lparr>world := w', events := events s @ [Call c, Returned c]\<rparr>)"
  by (simp add: bind_def lib_call_def)

lemma bind_lib_call_Inl:
  "op (world s) = (Inl e, w') \<Longrightarrow>
   bind (lib_call c op) f s = (Inl e, s\<lparr>world := w', events := events s @ [Call c, Raised c e]\<rparr>)"
  by (simp add: bind_def lib_call_def)

lemma bind_try_lib_call_Inr:
  "op (world s) = (Inr x, w') \<Longrightarrow>
   bind (try_except (lib_call c op) h) g s = g x (s\<lparr>world := w', events := events s @ [Call c, Returned c]\<rparr>)"
  by (simp add: bind_def try_except_def lib_call_def)

lemma bind_try_lib_call_Exception:
  "op (world s) = (Inl (Exception msg), w') \<Longrightarrow>
   bind (try_except (lib_call c op) h) g s
     = bind (h (Exception msg)) g (s\<lparr>world := w', events := events s @ [Call c, Raised c (Exception msg)]\<rparr>)"
  by (simp add: bind_def try_except_def lib_call_def)

lemma bind_try_lib_call_BaseOnly:
  "op (world s) = (Inl (BaseOnly msg), w') \<Longrightarrow>
   bind (try_except (lib_call c op) h) g s
     = (Inl (BaseOnly msg), s\<lparr>world := w', events := events s @ [Call c, Raised c (BaseOnly msg)]\<rparr>)"
  by (simp add: bind_def try_except_def lib_call_def)

lemma bind_try_lib_call_SystemExit:
  "op (world s) = (Inl (SystemExit code), w') \<Longrightarrow>
   bind (try_except (lib_call c op) h) g s
     = (Inl (SystemExit code), s\<lparr>world := w', events := events s @ [Call c, Raised c (SystemExit code)]\<rparr>)"
  by (simp add: bind_def try_except_def lib_call_def)

lemma bind_try_bind_lib_call_Inr:
  "op (world s) = (Inr x, w') \<Longrightarrow>
   bind (try_except (bind (lib_call c op) f) h) g s
     = bind (try_except (f x) h) g (s\<lparr>world := w', events := events s @ [Call c, Returned c]\<rparr>)"
  by (simp add: bind_def try_except_def lib_call_def)

lemma bind_try_bind_lib_call_Exception:
  "op (world s) = (Inl (Exception msg), w') \<Longrightarrow>
   bind (try_except (bind (lib_call c op) f) h) g s
     = bind (h (Exception msg)) g (s\<lparr>world := w', events := events s @ [Call c, Raised c (Exception msg)]\<rparr>)"
  by (simp add: bind_def try_except_def lib_call_def)

lemma bind_try_bind_lib_call_BaseOnly:
  "op (world s) = (Inl (BaseOnly msg), w') \<Longrightarrow>
   bind (try_except (bind (lib_call c op) f) h) g s
     = (Inl (BaseOnly msg), s\<lparr>world := w', events := events s @ [Call c, Raised c (BaseOnly msg)]\<rparr>)"
  by (simp add: bind_def try_except_def lib_call_def)

lemma bind_try_bind_lib_call_SystemExit:
  "op (world s) = (Inl (SystemExit code), w') \<Longrightarrow>
   bind (try_except (bind (lib_call c op) f) h) g s
     = (Inl (SystemExit code), s\<lparr>world := w', events := events s @ [Call c, Raised c (SystemExit code)]\<rparr>)"
  by (simp add: bind_def try_except_def lib_call_def)

lemma bind_try_ret: "bind (try_except (ret x) h) g s = g x s"
  by (simp add: bind_def try_except_def ret_def)

lemmas run_simps = bind_assoc bind_emit bind_ret bind_raise bind_lib_call_Inr bind_lib_call_Inl
  bind_try_lib_call_Inr bind_try_lib_call_Exception bind_try_lib_call_BaseOnly
  bind_try_lib_call_SystemExit bind_try_bind_lib_call_SystemExit
  bind_try_bind_lib_call_Inr bind_try_bind_lib_call_Exception bind_try_bind_lib_call_BaseOnly
  bind_try_ret ret_def start_def convert_def Let_def to_int32_def shape_of_def

subsection \<open>The claims about the pipeline\<close>

lemma run_pair:
  "convert lib model_name seq_len output_package s
     = (fst (convert lib model_name seq_len output_package s),
        snd (convert lib model_name seq_len output_package s))"
  by simp




lemmas sim_defs = sim_lib_def trace_fails_lib_def traced_eval_fails_lib_def interrupted_lib_def
  disk_full_lib_def untruncated_lib_def

lemma package_name_Out: "package_name ''Out'' = ''Out.mlpackage''"
  by (simp add: package_name_def endswith_def)




text \<open>
  Claim C4, as stated: \<^verbatim>\<open>torch.jit.script\<close> is invoked if and only if \<^verbatim>\<open>torch.jit.trace\<close>
  raises an exception, and never when tracing succeeds. Both directions fail. When
  \<^verbatim>\<open>torch.jit.trace\<close> raises \<^verbatim>\<open>KeyboardInterrupt\<close>, which \<^verbatim>\<open>except Exception\<close> does not
  catch, scripting is not attempted. When tracing succeeds and the \<^verbatim>\<open>traced.eval()\<close> that
  follows it inside the same \<^verbatim>\<open>try\<close> raises, scripting is attempted.
\<close>

theorem script_fallback_counterexample:
  "Raised (JitTrace [[101, 2023, 2003, 102, 0, 0]] [[1, 1, 1, 1, 0, 0]]) (BaseOnly ''KeyboardInterrupt'')
       \<in> set (events (snd (convert interrupted_lib ''m'' 6 ''Out'' (start []))))
   \<and> Call JitScript \<notin> set (events (snd (convert interrupted_lib ''m'' 6 ''Out'' (start []))))
   \<and> Returned (JitTrace [[101, 2023, 2003, 102, 0, 0]] [[1, 1, 1, 1, 0, 0]])
       \<in> set (events (snd (convert traced_eval_fails_lib ''m'' 6 ''Out'' (start []))))
   \<and> Call JitScript \<in> set (events (snd (convert traced_eval_fails_lib ''m'' 6 ''Out'' (start []))))"
  by (simp add: run_simps sim_defs package_name_Out)

text \<open>
  Claim C4, amended. In every run of \<^verbatim>\<open>convert\<close>, \<^verbatim>\<open>torch.jit.script\<close> is invoked if and
  only if the traced block (\<^verbatim>\<open>torch.jit.trace\<close> followed by \<^verbatim>\<open>traced.eval()\<close>) raises an
  instance of \<^verbatim>\<open>Exception\<close>; it is invoked at most once; and there is no other recovery:
  every other exception a library call raises is the exception \<^verbatim>\<open>convert\<close> ends with.
\<close>

theorem script_fallback:
  assumes "convert lib model_name seq_len output_package (start w) = (r, s')"
  shows "(Call JitScript \<in> set (events s') \<longleftrightarrow>
            (\<exists>msg. (\<exists>ids am. Raised (JitTrace ids am) (Exception msg) \<in> set (events s'))
                    \<or> Raised TracedEval (Exception msg) \<in> set (events s')))
       \<and> count_list (events s') (Call JitScript) \<le> 1
       \<and> (\<forall>c e. Raised c e \<in> set (events s') \<longrightarrow>
             r = Inl e \<or> (\<exists>msg. e = Exception msg \<and> (c = TracedEval \<or> (\<exists>ids am. c = JitTrace ids am))))"
  using script_iff_trace_block_raised[OF assms] script_at_most_once[OF assms]
    raised_caught_or_propagated[OF assms]
  by blast

theorem script_fallback_witness:
  "Raised (JitTrace [[101, 2023, 2003, 102, 0, 0]] [[1, 1, 1, 1, 0, 0]]) (Exception ''unsupported op'')
       \<in> set (events (snd (convert trace_fails_lib ''m'' 6 ''Out'' (start []))))
   \<and> Call JitScript \<in> set (events (snd (convert trace_fails_lib ''m'' 6 ''Out'' (start []))))
   \<and> count_list (events (snd (convert trace_fails_lib ''m'' 6 ''Out'' (start [])))) (Call JitScript) \<le> 1"
proof -
  have raised: "Raised (JitTrace [[101, 2023, 2003, 102, 0, 0]] [[1, 1, 1, 1, 0, 0]]) (Exception ''unsupported op'')
       \<in> set (events (snd (convert trace_fails_lib ''m'' 6 ''Out'' (start []))))"
    by (simp add: run_simps sim_defs package_name_Out)
  from script_fallback[OF run_pair, of trace_fails_lib "''m''" 6 "''Out''" "[]"] raised
  show ?thesis by blast
qed






text \<open>
  Claim C7. The package is saved under a name that ends with \<open>.mlpackage\<close>: every save
  call of a run is given \<open>package_name output_package\<close>, which ends with the suffix; it is
  the output name with the suffix appended once when the output name does not end with
  it, and the output name itself when it does; applying it twice changes nothing.
\<close>

theorem saved_name_ends_with_mlpackage:
  assumes "convert lib model_name seq_len output_package (start w) = (r, s')"
  shows "(\<forall>p. Call (MlmodelSave p) \<in> set (events s') \<longrightarrow> p = package_name output_package)
       \<and> endswith (package_name output_package) ''.mlpackage''
       \<and> (\<not> endswith output_package ''.mlpackage'' \<longrightarrow>
            package_name output_package = output_package @ ''.mlpackage'')
       \<and> (endswith output_package ''.mlpackage'' \<longrightarrow> package_name output_package = output_package)
       \<and> package_name (package_name output_package) = package_name output_package"
  using saves_package_name[OF assms] package_name_endswith[of output_package]
    package_name_appends[of output_package] package_name_keeps[of output_package]
    package_name_idem[of output_package]
  by blast

theorem saved_name_ends_with_mlpackage_witness:
  "Call (MlmodelSave ''Out.mlpackage'') \<in> set (events (snd (convert sim_lib ''m'' 6 ''Out'' (start []))))
   \<and> \<not> endswith ''Out'' ''.mlpackage''
   \<and> ''Out.mlpackage'' = package_name ''Out''
   \<and> package_name ''Out'' = ''Out'' @ ''.mlpackage''
   \<and> endswith (package_name ''Out'') ''.mlpackage''"
proof -
  have saved: "Call (MlmodelSave ''Out.mlpackage'')
      \<in> set (events (snd (convert sim_lib ''m'' 6 ''Out'' (start []))))"
    by (simp add: run_simps sim_defs package_name_Out)
  have plain: "\<not> endswith ''Out'' ''.mlpackage''"
    by (simp add: endswith_def)
  from saved_name_ends_with_mlpackage[OF run_pair, of sim_lib "''m''" 6 "''Out''" "[]"] saved plain
  show ?thesis by blast
qed



end
